theory Spec2Isabelle
  imports Complex_Main
begin

section \<open>Values, errors and the library functions the code calls\<close>

text \<open>
  Conventions of the embedding.
  \<^item> A Python \<open>float\<close> is a \<open>real\<close>: arithmetic is exact, and the non-finite
    values (\<open>nan\<close>, \<open>inf\<close>) have no counterpart. The one place where the code produces
    a \<open>nan\<close> itself (\<open>np.mean\<close> of an empty list) is modelled with \<open>None\<close>.
  \<^item> A \<open>datetime\<close> is the number of microseconds since 0001-01-01T00:00:00 (an \<open>int\<close>
    between 0 and \<open>datetime_max\<close>); a \<open>timedelta\<close> is a number of microseconds.
  \<^item> Every \<open>datetime.now()\<close> of the source is an explicit argument of the function
    that reads the clock, one argument per reading.
  \<^item> A raised exception is a value of \<open>py_error\<close>. A method that mutates its object
    before it raises returns the mutated state next to the error.
\<close>

datatype py_error =
    IndexError
  | OverflowError
  | KeyError
  | ValueError string
  | ValidationError

datatype pyval =
    PNone
  | PBool bool
  | PInt int
  | PFloat real
  | PStr string
  | PDatetime int
  | PList "pyval list"
  | PDict "(string \<times> pyval) list"

text \<open>
  The functions of the standard library whose results the code only passes around:
  \<open>sha256_json v\<close> is \<open>hashlib.sha256(json.dumps(v, sort_keys=True).encode()).hexdigest()\<close>,
  \<open>isoformat t\<close> is \<open>t.isoformat()\<close>, \<open>py_str v\<close> is \<open>str(v)\<close>.
\<close>

record pylib =
  sha256_json :: "pyval \<Rightarrow> string"
  isoformat :: "int \<Rightarrow> string"
  py_str :: "pyval \<Rightarrow> string"

text \<open>\<open>d.get(k, default)\<close> on a dictionary kept as an association list.\<close>

definition dict_get :: "(string \<times> pyval) list \<Rightarrow> string \<Rightarrow> pyval \<Rightarrow> pyval" where
  "dict_get d k dflt = (case map_of d k of None \<Rightarrow> dflt | Some v \<Rightarrow> v)"

text \<open>\<open>d.get(k, [])\<close> on a dictionary of lists.\<close>

definition history_get :: "('k \<rightharpoonup> 'a list) \<Rightarrow> 'k \<Rightarrow> 'a list" where
  "history_get d k = (case d k of None \<Rightarrow> [] | Some xs \<Rightarrow> xs)"

text \<open>
  \<open>datetime\<close> arithmetic. The largest \<open>datetime\<close> is 9999-12-31T23:59:59.999999, and a
  \<open>timedelta\<close> holds at most 999999999 days in magnitude; beyond either limit the
  constructor or the addition raises \<open>OverflowError\<close>.
\<close>

definition datetime_max :: int where
  "datetime_max = 3652059 * 86400000000 - 1"

definition valid_datetime :: "int \<Rightarrow> bool" where
  "valid_datetime t \<longleftrightarrow> 0 \<le> t \<and> t \<le> datetime_max"

definition timedelta :: "int \<Rightarrow> py_error + int" where
  "timedelta us =
     (if - 999999999 \<le> us div 86400000000 \<and> us div 86400000000 \<le> 999999999
      then Inr us else Inl OverflowError)"

definition timedelta_days :: "int \<Rightarrow> py_error + int" where
  "timedelta_days d = timedelta (d * 86400000000)"

definition timedelta_hours :: "int \<Rightarrow> py_error + int" where
  "timedelta_hours h = timedelta (h * 3600000000)"

definition datetime_add :: "int \<Rightarrow> int \<Rightarrow> py_error + int" where
  "datetime_add t td =
     (if 0 \<le> t + td \<and> t + td \<le> datetime_max then Inr (t + td) else Inl OverflowError)"

definition datetime_sub :: "int \<Rightarrow> int \<Rightarrow> py_error + int" where
  "datetime_sub t td = datetime_add t (- td)"

text \<open>\<open>(t1 - t2).total_seconds() / 86400\<close>: the difference of two datetimes, in days.\<close>

definition days_between :: "int \<Rightarrow> int \<Rightarrow> real" where
  "days_between t1 t2 = real_of_int (t1 - t2) / 1000000 / 86400"

text \<open>\<open>int(x)\<close> on a float truncates towards zero.\<close>

definition py_int :: "real \<Rightarrow> int" where
  "py_int x = (if 0 \<le> x then \<lfloor>x\<rfloor> else \<lceil>x\<rceil>)"

text \<open>
  \<open>numpy\<close>: the mean and the (population) standard deviation of an empty list are
  \<open>nan\<close>, here \<open>None\<close>; \<open>np.min\<close> and \<open>np.max\<close> of an empty list raise \<open>ValueError\<close>.
\<close>

definition np_mean :: "real list \<Rightarrow> real option" where
  "np_mean xs = (if xs = [] then None else Some (sum_list xs / real (length xs)))"

definition np_std :: "real list \<Rightarrow> real option" where
  "np_std xs =
     (case np_mean xs of
        None \<Rightarrow> None
      | Some mu \<Rightarrow> Some (sqrt (sum_list (map (\<lambda>x. (x - mu)\<^sup>2) xs) / real (length xs))))"

definition np_min :: "real list \<Rightarrow> py_error + real" where
  "np_min xs =
     (case xs of
        [] \<Rightarrow> Inl (ValueError ''zero-size array to reduction operation minimum which has no identity'')
      | x # rest \<Rightarrow> Inr (fold min rest x))"

definition np_max :: "real list \<Rightarrow> py_error + real" where
  "np_max xs =
     (case xs of
        [] \<Rightarrow> Inl (ValueError ''zero-size array to reduction operation maximum which has no identity'')
      | x # rest \<Rightarrow> Inr (fold max rest x))"

text \<open>\<open>xs[-n:]\<close> for a positive \<open>n\<close>: the last \<open>n\<close> elements, or all of them.\<close>

definition last_n :: "nat \<Rightarrow> 'a list \<Rightarrow> 'a list" where
  "last_n n xs = drop (length xs - n) xs"

section \<open>The ledger: \<open>blockchain/cultivation_chain.py\<close>\<close>

record BlockchainRecord =
  record_id :: string
  record_type :: string
  data_hash :: string
  previous_hash_r :: string
  timestamp_r :: int
  block_number_r :: nat

record Block =
  block_number :: nat
  timestamp :: int
  data :: "(string \<times> pyval) list"
  previous_hash :: string
  hash :: string

text \<open>\<open>Block._make_serializable\<close>: datetimes become their ISO strings, recursively.\<close>

primrec make_serializable :: "pylib \<Rightarrow> pyval \<Rightarrow> pyval" where
  "make_serializable L PNone = PNone"
| "make_serializable L (PBool b) = PBool b"
| "make_serializable L (PInt i) = PInt i"
| "make_serializable L (PFloat x) = PFloat x"
| "make_serializable L (PStr s) = PStr s"
| "make_serializable L (PDatetime t) = PStr (isoformat L t)"
| "make_serializable L (PList vs) = PList (map (make_serializable L) vs)"
| "make_serializable L (PDict kvs) = PDict (map (map_prod (\<lambda>k. k) (make_serializable L)) kvs)"

text \<open>\<open>Block.calculate_hash\<close>: reads every field but \<open>hash\<close>.\<close>

definition calculate_hash :: "pylib \<Rightarrow> Block \<Rightarrow> string" where
  "calculate_hash L b =
     (let serializable_data = make_serializable L (PDict (data b))
      in sha256_json L (PDict
           [(''block_number'', PInt (int (block_number b))),
            (''timestamp'', PStr (isoformat L (timestamp b))),
            (''data'', serializable_data),
            (''previous_hash'', PStr (previous_hash b))]))"

text \<open>\<open>Block.__init__\<close>; \<open>now\<close> is the clock reading of the constructor.\<close>

definition Block_init :: "pylib \<Rightarrow> int \<Rightarrow> nat \<Rightarrow> (string \<times> pyval) list \<Rightarrow> string \<Rightarrow> Block" where
  "Block_init L now n d prev =
     (let self = \<lparr>block_number = n, timestamp = now, data = d, previous_hash = prev, hash = []\<rparr>
      in self\<lparr>hash := calculate_hash L self\<rparr>)"

text \<open>
  \<open>Block.to_record\<close>. \<open>BlockchainRecord\<close> is a pydantic (version 2) model whose
  \<open>record_type\<close> field is a \<open>str\<close>: any other value of the payload's \<open>"type"\<close> entry
  fails validation. \<open>record_id\<close> goes through \<open>str()\<close> first.
\<close>

definition to_record :: "pylib \<Rightarrow> Block \<Rightarrow> py_error + BlockchainRecord" where
  "to_record L b =
     (case dict_get (data b) ''type'' (PStr ''unknown'') of
        PStr ty \<Rightarrow>
          Inr \<lparr>record_id = py_str L (dict_get (data b) ''id'' (PStr ''unknown'')),
               record_type = ty,
               data_hash = hash b,
               previous_hash_r = previous_hash b,
               timestamp_r = timestamp b,
               block_number_r = block_number b\<rparr>
      | _ \<Rightarrow> Inl ValidationError)"

definition genesis_data :: "(string \<times> pyval) list" where
  "genesis_data = [(''type'', PStr ''genesis''), (''data'', PStr ''GrowPodEmpire Genesis Block'')]"

text \<open>\<open>CultivationBlockchain.__init__\<close> with \<open>create_genesis_block\<close>: the state is the list \<open>chain\<close>.\<close>

definition create_genesis_block :: "pylib \<Rightarrow> int \<Rightarrow> Block list \<Rightarrow> Block list" where
  "create_genesis_block L now chain = chain @ [Block_init L now 0 genesis_data ''0'']"

definition CultivationBlockchain_init :: "pylib \<Rightarrow> int \<Rightarrow> Block list" where
  "CultivationBlockchain_init L now = create_genesis_block L now []"

text \<open>\<open>get_latest_block\<close>: \<open>self.chain[-1]\<close> raises on an empty list.\<close>

definition get_latest_block :: "Block list \<Rightarrow> py_error + Block" where
  "get_latest_block chain = (if chain = [] then Inl IndexError else Inr (last chain))"

text \<open>
  \<open>add_block\<close>: the block is appended before \<open>to_record\<close> runs, so the chain has grown
  also when the record fails validation.
\<close>

definition add_block ::
  "pylib \<Rightarrow> int \<Rightarrow> Block list \<Rightarrow> (string \<times> pyval) list
     \<Rightarrow> (py_error + BlockchainRecord) \<times> Block list" where
  "add_block L now chain d =
     (case get_latest_block chain of
        Inl e \<Rightarrow> (Inl e, chain)
      | Inr previous_block \<Rightarrow>
          (let new_block = Block_init L now (length chain) d (hash previous_block)
           in (to_record L new_block, chain @ [new_block])))"


text \<open>
  \<open>verify_chain\<close>: the loop \<open>for i in range(1, len(self.chain))\<close>, with both early
  returns.
\<close>

function verify_loop :: "pylib \<Rightarrow> Block list \<Rightarrow> nat \<Rightarrow> bool" where
  "verify_loop L chain i =
     (if i < length chain then
        (let current_block = chain ! i;
             previous_block = chain ! (i - 1)
         in if hash current_block \<noteq> calculate_hash L current_block then False
            else if previous_hash current_block \<noteq> hash previous_block then False
            else verify_loop L chain (i + 1))
      else True)"
  by pat_completeness auto
termination
  by (relation "measure (\<lambda>(L, chain, i). length chain - i)") auto

definition verify_chain :: "pylib \<Rightarrow> Block list \<Rightarrow> bool" where
  "verify_chain L chain = verify_loop L chain 1"

text \<open>A run of \<open>add_block\<close> calls, each with its clock reading and payload.\<close>

fun add_blocks :: "pylib \<Rightarrow> Block list \<Rightarrow> (int \<times> (string \<times> pyval) list) list \<Rightarrow> Block list" where
  "add_blocks L chain [] = chain"
| "add_blocks L chain ((now, d) # ops) = add_blocks L (snd (add_block L now chain d)) ops"

section \<open>The data models: \<open>models/__init__.py\<close>\<close>

datatype GrowthStage = SEED | GERMINATION | SEEDLING | VEGETATIVE | FLOWERING | HARVEST

text \<open>\<open>list(GrowthStage)\<close>, in definition order, and \<open>list(GrowthStage).index(stage)\<close>.\<close>

definition GrowthStage_list :: "GrowthStage list" where
  "GrowthStage_list = [SEED, GERMINATION, SEEDLING, VEGETATIVE, FLOWERING, HARVEST]"

fun GrowthStage_index :: "GrowthStage \<Rightarrow> nat" where
  "GrowthStage_index SEED = 0"
| "GrowthStage_index GERMINATION = 1"
| "GrowthStage_index SEEDLING = 2"
| "GrowthStage_index VEGETATIVE = 3"
| "GrowthStage_index FLOWERING = 4"
| "GrowthStage_index HARVEST = 5"

record EnvironmentalCondition =
  timestamp_c :: int
  temperature :: real
  humidity :: real
  co2_level :: real
  light_intensity :: real
  ph_level :: real

record Plant =
  id_p :: string
  strain :: string
  growth_stage :: GrowthStage
  planted_date :: int
  pod_id :: string
  height_p :: "real option"
  health_score :: real
  notes_p :: "string option"
  metadata :: "(string \<times> pyval) list"

record GrowPod =
  id_g :: string
  name :: string
  capacity :: int
  current_plants :: "string list"
  current_conditions :: "EnvironmentalCondition option"
  active :: bool

record GrowthMetrics =
  plant_id :: string
  timestamp_m :: int
  height :: real
  leaf_count :: "int option"
  health_score_m :: real
  growth_rate :: "real option"
  predicted_harvest_date :: "int option"

section \<open>Growth tracking: \<open>services/growth_tracker.py\<close>\<close>

text \<open>The two tables set up by \<open>GrowthTracker.__init__\<close>; they are never written again.\<close>

definition stage_growth_rates :: "GrowthStage \<rightharpoonup> real" where
  "stage_growth_rates = map_of [(SEEDLING, 0.5), (VEGETATIVE, 2.0), (FLOWERING, 0.3)]"

definition stage_durations :: "GrowthStage \<rightharpoonup> int" where
  "stage_durations =
     map_of [(SEED, 3), (GERMINATION, 7), (SEEDLING, 14), (VEGETATIVE, 30), (FLOWERING, 60)]"

text \<open>\<open>self.stage_growth_rates.get(stage, 1.0)\<close>.\<close>

definition expected_rate_of :: "GrowthStage \<Rightarrow> real" where
  "expected_rate_of stage = (case stage_growth_rates stage of None \<Rightarrow> 1.0 | Some r \<Rightarrow> r)"

text \<open>
  The loop of \<open>_predict_harvest_date\<close> over \<open>list(GrowthStage)[current_stage_index:]\<close>,
  with its \<open>break\<close> at the harvest stage.
\<close>

fun sum_stage_durations :: "GrowthStage list \<Rightarrow> int \<Rightarrow> int" where
  "sum_stage_durations [] remaining_days = remaining_days"
| "sum_stage_durations (stage # rest) remaining_days =
     (if stage = HARVEST then remaining_days
      else sum_stage_durations rest
             (remaining_days + (case stage_durations stage of None \<Rightarrow> 0 | Some d \<Rightarrow> d)))"

text \<open>
  \<open>[m.growth_rate for m in recent_metrics if m.growth_rate]\<close>: the filter is the
  truth value of the rate, so it drops \<open>None\<close> and also \<open>0.0\<close>.
\<close>

definition truthy_rates :: "GrowthMetrics list \<Rightarrow> real list" where
  "truthy_rates ms =
     concat (map (\<lambda>m. case growth_rate m of
                          None \<Rightarrow> []
                        | Some r \<Rightarrow> if r \<noteq> 0 then [r] else []) ms)"

text \<open>
  The number of days \<open>_predict_harvest_date\<close> adds to the clock: the value of
  \<open>remaining_days\<close> when the function reaches its \<open>return\<close>. A \<open>nan\<close> mean compares false
  with \<open>> 0\<close>.
\<close>

definition predicted_remaining_days :: "Plant \<Rightarrow> GrowthMetrics list \<Rightarrow> int" where
  "predicted_remaining_days plant history =
     (let current_stage_index = GrowthStage_index (growth_stage plant);
          remaining_days = sum_stage_durations (drop current_stage_index GrowthStage_list) 0
      in if history \<noteq> [] \<and> length history > 3 then
           (let recent_metrics = last_n 5 history;
                avg_growth_rate = np_mean (truthy_rates recent_metrics);
                expected_rate = expected_rate_of (growth_stage plant)
            in case avg_growth_rate of
                 None \<Rightarrow> remaining_days
               | Some avg \<Rightarrow>
                   if avg > 0 then
                     (let rate_ratio = expected_rate / avg
                      in py_int (real_of_int remaining_days * rate_ratio))
                   else remaining_days)
         else remaining_days)"

text \<open>
  \<open>_predict_harvest_date\<close>; \<open>now\<close> is the clock reading of the \<open>return\<close> statement. (The
  reading that computes \<open>days_since_planted\<close> is not used afterwards.)
\<close>

definition predict_harvest_date :: "int \<Rightarrow> Plant \<Rightarrow> GrowthMetrics list \<Rightarrow> py_error + int" where
  "predict_harvest_date now plant history =
     (case timedelta_days (predicted_remaining_days plant history) of
        Inl e \<Rightarrow> Inl e
      | Inr td \<Rightarrow> datetime_add now td)"

text \<open>
  \<open>track_growth\<close>. The state is the dictionary \<open>growth_history\<close>. The clock is read for the
  rate (\<open>now_rate\<close>, only when a prior sample exists), for the prediction (\<open>now_predict\<close>)
  and for the new sample's timestamp (\<open>now_metric\<close>). An exception of the prediction
  leaves the history as it was.
\<close>

definition track_growth ::
  "int \<Rightarrow> int \<Rightarrow> int \<Rightarrow> (string \<rightharpoonup> GrowthMetrics list) \<Rightarrow> Plant \<Rightarrow> real \<Rightarrow> int option
     \<Rightarrow> py_error + (GrowthMetrics \<times> (string \<rightharpoonup> GrowthMetrics list))" where
  "track_growth now_rate now_predict now_metric growth_history plant h lc =
     (let plant_history = history_get growth_history (id_p plant);
          rate =
            (if plant_history \<noteq> [] then
               (let last_metric = last plant_history;
                    time_diff = days_between now_rate (timestamp_m last_metric)
                in if time_diff > 0 then
                     (let height_diff = h - height last_metric
                      in Some (height_diff / time_diff))
                   else None)
             else None);
          score =
            (case rate of
               None \<Rightarrow> health_score plant
             | Some r \<Rightarrow>
                 (let expected_rate = expected_rate_of (growth_stage plant)
                  in if r < expected_rate * 0.5 then max 50 (health_score plant - 10)
                     else if r > expected_rate * 1.5 then min 100 (health_score plant + 5)
                     else health_score plant))
      in case predict_harvest_date now_predict plant plant_history of
           Inl e \<Rightarrow> Inl e
         | Inr predicted_harvest \<Rightarrow>
             (let metrics = \<lparr>plant_id = id_p plant,
                             timestamp_m = now_metric,
                             height = h,
                             leaf_count = lc,
                             health_score_m = score,
                             growth_rate = rate,
                             predicted_harvest_date = Some predicted_harvest\<rparr>
              in Inr (metrics, growth_history(id_p plant \<mapsto> plant_history @ [metrics]))))"

section \<open>Environmental monitoring: \<open>services/environmental_monitor.py\<close>\<close>

definition optimal_ranges :: "string \<rightharpoonup> real \<times> real" where
  "optimal_ranges =
     map_of [(''temperature'', (20, 28)),
             (''humidity'', (40, 60)),
             (''co2_level'', (800, 1500)),
             (''light_intensity'', (400, 700)),
             (''ph_level'', (6.0, 7.0))]"


text \<open>
  The items of \<open>conditions.model_dump()\<close> that \<open>_analyze_conditions\<close> does not skip: every
  field but \<open>timestamp\<close>, in declaration order.
\<close>

definition measured_items :: "EnvironmentalCondition \<Rightarrow> (string \<times> real) list" where
  "measured_items c =
     [(''temperature'', temperature c),
      (''humidity'', humidity c),
      (''co2_level'', co2_level c),
      (''light_intensity'', light_intensity c),
      (''ph_level'', ph_level c)]"

record analysis_entry =
  value_a :: real
  status :: string
  optimal_range_a :: "real \<times> real"

definition analyze_conditions :: "EnvironmentalCondition \<Rightarrow> (string \<times> analysis_entry) list" where
  "analyze_conditions c =
     concat (map (\<lambda>(param, v).
        case optimal_ranges param of
          None \<Rightarrow> []
        | Some (min_val, max_val) \<Rightarrow>
            [(param,
              \<lparr>value_a = v,
               status = (if min_val \<le> v \<and> v \<le> max_val then ''optimal''
                         else if min_val * 0.9 \<le> v \<and> v \<le> max_val * 1.1 then ''acceptable''
                         else ''critical''),
               optimal_range_a = (min_val, max_val)\<rparr>)]) (measured_items c))"



definition get_overall_status :: "EnvironmentalCondition option \<Rightarrow> string" where
  "get_overall_status latest_condition =
     (case latest_condition of
        None \<Rightarrow> ''unknown''
      | Some c \<Rightarrow>
          (let analysis = analyze_conditions c;
               critical_count = length (filter (\<lambda>(k, v). status v = ''critical'') analysis)
           in if critical_count > 0 then ''critical''
              else (let acceptable_count =
                          length (filter (\<lambda>(k, v). status v = ''acceptable'') analysis)
                    in if acceptable_count > 2 then ''acceptable'' else ''optimal'')))"

record spread_stats =
  average :: "real option"
  minimum :: real
  maximum :: real
  std_dev :: "real option"

record level_stats =
  average_l :: "real option"
  minimum_l :: real
  maximum_l :: real

record env_analytics =
  period_hours :: int
  measurements :: nat
  temperature_stats :: spread_stats
  humidity_stats :: spread_stats
  co2_stats :: level_stats
  overall_status :: string

text \<open>What \<open>get_environment_analytics\<close> returns: the error dictionary or the analytics.\<close>

datatype env_reply = EnvError string | EnvAnalytics env_analytics

definition spread_of :: "real list \<Rightarrow> py_error + spread_stats" where
  "spread_of xs =
     (case np_min xs of
        Inl e \<Rightarrow> Inl e
      | Inr lo \<Rightarrow>
          (case np_max xs of
             Inl e \<Rightarrow> Inl e
           | Inr hi \<Rightarrow>
               Inr \<lparr>average = np_mean xs, minimum = lo, maximum = hi, std_dev = np_std xs\<rparr>))"

definition level_of :: "real list \<Rightarrow> py_error + level_stats" where
  "level_of xs =
     (case np_min xs of
        Inl e \<Rightarrow> Inl e
      | Inr lo \<Rightarrow>
          (case np_max xs of
             Inl e \<Rightarrow> Inl e
           | Inr hi \<Rightarrow> Inr \<lparr>average_l = np_mean xs, minimum_l = lo, maximum_l = hi\<rparr>))"

text \<open>
  \<open>get_environment_analytics\<close>; \<open>now\<close> is the clock reading of \<open>cutoff_time\<close>. The
  dictionary is built in the order temperature, humidity, CO2, overall status.
\<close>

definition get_environment_analytics ::
  "int \<Rightarrow> (string \<rightharpoonup> EnvironmentalCondition list) \<Rightarrow> string \<Rightarrow> int \<Rightarrow> py_error + env_reply" where
  "get_environment_analytics now condition_history pod hours =
     (let history = history_get condition_history pod
      in if history = [] then Inr (EnvError ''No environmental data available'')
         else
           (case timedelta_hours hours of
              Inl e \<Rightarrow> Inl e
            | Inr td \<Rightarrow>
           (case datetime_sub now td of
              Inl e \<Rightarrow> Inl e
            | Inr cutoff_time \<Rightarrow>
           (let filtered = filter (\<lambda>c. timestamp_c c \<ge> cutoff_time) history;
                recent_history =
                  (if filtered = [] then (if length history > 10 then last_n 10 history else history)
                   else filtered);
                temps = map temperature recent_history;
                humidities = map humidity recent_history;
                co2_levels = map co2_level recent_history
            in case spread_of temps of
                 Inl e \<Rightarrow> Inl e
               | Inr t_stats \<Rightarrow>
              (case spread_of humidities of
                 Inl e \<Rightarrow> Inl e
               | Inr h_stats \<Rightarrow>
              (case level_of co2_levels of
                 Inl e \<Rightarrow> Inl e
               | Inr c_stats \<Rightarrow>
                   Inr (EnvAnalytics
                     \<lparr>period_hours = hours,
                      measurements = length recent_history,
                      temperature_stats = t_stats,
                      humidity_stats = h_stats,
                      co2_stats = c_stats,
                      overall_status =
                        get_overall_status
                          (if recent_history \<noteq> [] then Some (last recent_history) else None)\<rparr>)))))))"

section \<open>The coordinator: \<open>app.py\<close>\<close>

record GrowPodEmpire =
  plants :: "string \<rightharpoonup> Plant"
  pods :: "string \<rightharpoonup> GrowPod"
  growth_tracker :: "string \<rightharpoonup> GrowthMetrics list"
  environmental_monitor :: "string \<rightharpoonup> EnvironmentalCondition list"
  blockchain :: "Block list"






section \<open>A stand-in library for concrete evaluation\<close>

text \<open>
  A library for evaluating the definitions on concrete inputs: the digest is
  the printed block number followed by the payload's keys, which is enough to tell the
  blocks of the examples apart.
\<close>

definition demo_digest :: "pyval \<Rightarrow> string" where
  "demo_digest v =
     (case v of
        PDict kvs \<Rightarrow>
          concat (map (\<lambda>(k, x). case x of
                                  PInt i \<Rightarrow> replicate (nat i) CHR ''#''
                                | PStr s \<Rightarrow> s
                                | PDict d \<Rightarrow> concat (map fst d)
                                | _ \<Rightarrow> []) kvs)
      | _ \<Rightarrow> [])"

definition demo_lib :: pylib where
  "demo_lib = \<lparr>sha256_json = demo_digest,
               isoformat = (\<lambda>t. ''T''),
               py_str = (\<lambda>v. case v of PStr s \<Rightarrow> s | _ \<Rightarrow> ''?'')\<rparr>"

section \<open>Notions used in the statements and proofs\<close>

text \<open>What the loop of \<open>verify_chain\<close> checks, from index \<open>i\<close> on.\<close>

definition links_from :: "pylib \<Rightarrow> Block list \<Rightarrow> nat \<Rightarrow> bool" where
  "links_from L chain i \<longleftrightarrow>
     (\<forall>j. i \<le> j \<and> j < length chain \<longrightarrow>
        hash (chain ! j) = calculate_hash L (chain ! j)
        \<and> previous_hash (chain ! j) = hash (chain ! (j - 1)))"


text \<open>The example ledger: a fresh chain and one appended block; and a forged payload.\<close>

definition example_chain :: "Block list" where
  "example_chain =
     add_blocks demo_lib (CultivationBlockchain_init demo_lib 0) [(1, [(''type'', PStr ''note'')])]"

definition forged_data :: "(string \<times> pyval) list" where
  "forged_data = [(''kind'', PStr ''forged'')]"

text \<open>
  Example inputs for the growth tracker: midnight of 2026-01-01 and one day in
  microseconds; a plant in the seed stage, and one in the vegetative stage with a
  health score of 40; samples taken one day apart with heights 10, 10, 14 and 18 (so
  the rates are undefined, 0, 4 and 4).
\<close>

definition t0 :: int where
  "t0 = 63902822400000000"

definition day :: int where
  "day = 86400000000"

definition seed_plant :: Plant where
  "seed_plant = \<lparr>id_p = ''p1'', strain = ''kush'', growth_stage = SEED, planted_date = t0,
                 pod_id = ''pod1'', height_p = None, health_score = 100, notes_p = None,
                 metadata = []\<rparr>"

definition weak_plant :: Plant where
  "weak_plant = seed_plant\<lparr>growth_stage := VEGETATIVE, health_score := 40\<rparr>"

definition sample :: "int \<Rightarrow> real \<Rightarrow> real option \<Rightarrow> GrowthMetrics" where
  "sample t h r = \<lparr>plant_id = ''p1'', timestamp_m = t, height = h, leaf_count = None,
                   health_score_m = 100, growth_rate = r, predicted_harvest_date = Some (t + 114 * day)\<rparr>"

definition four_samples :: "GrowthMetrics list" where
  "four_samples =
     [sample t0 10 None, sample (t0 + day) 10 (Some 0),
      sample (t0 + 2 * day) 14 (Some 4), sample (t0 + 3 * day) 18 (Some 4)]"


text \<open>
  The reading of harvest prediction in the specification, for comparison with
  \<open>predicted_remaining_days\<close>: the mean is taken over the rates of the last five samples
  that are defined, whatever their value.
\<close>

definition defined_rates :: "GrowthMetrics list \<Rightarrow> real list" where
  "defined_rates ms = concat (map (\<lambda>m. case growth_rate m of None \<Rightarrow> [] | Some r \<Rightarrow> [r]) ms)"

definition claimed_remaining_days :: "Plant \<Rightarrow> GrowthMetrics list \<Rightarrow> int" where
  "claimed_remaining_days plant history =
     (let remaining_days =
            sum_stage_durations (drop (GrowthStage_index (growth_stage plant)) GrowthStage_list) 0
      in if length history \<ge> 4 then
           (case np_mean (defined_rates (last_n 5 history)) of
              None \<Rightarrow> remaining_days
            | Some mean_recent_rate \<Rightarrow>
                if mean_recent_rate > 0 then
                  py_int (real_of_int remaining_days
                          * (expected_rate_of (growth_stage plant) / mean_recent_rate))
                else remaining_days)
         else remaining_days)"




text \<open>
  The statistics as the specification words them: mean, least and greatest value and
  population standard deviation of a non-empty list of values.
\<close>

definition mean_of :: "real list \<Rightarrow> real" where
  "mean_of xs = sum_list xs / real (length xs)"

definition spread_over :: "real list \<Rightarrow> spread_stats" where
  "spread_over xs =
     \<lparr>average = Some (mean_of xs), minimum = Min (set xs), maximum = Max (set xs),
      std_dev = Some (sqrt (mean_of (map (\<lambda>x. (x - mean_of xs)\<^sup>2) xs)))\<rparr>"

definition level_over :: "real list \<Rightarrow> level_stats" where
  "level_over xs = \<lparr>average_l = Some (mean_of xs), minimum_l = Min (set xs), maximum_l = Max (set xs)\<rparr>"

text \<open>
  Example samples: one with pH 8 and a CO2 level and light intensity far outside their
  ranges, everything else optimal; and a pod whose only sample is a day old.
\<close>

definition odd_sample :: EnvironmentalCondition where
  "odd_sample = \<lparr>timestamp_c = t0 - day, temperature = 24, humidity = 50, co2_level = 100000,
                  light_intensity = 0, ph_level = 8\<rparr>"

definition one_sample_history :: "string \<rightharpoonup> EnvironmentalCondition list" where
  "one_sample_history = [''pod1'' \<mapsto> [odd_sample]]"



section \<open>Properties of the ledger\<close>

declare verify_loop.simps [simp del]

lemma calculate_hash_ignores_hash: "calculate_hash L (b\<lparr>hash := h\<rparr>) = calculate_hash L b"
  by (simp add: calculate_hash_def)

lemma Block_init_fields:
  "block_number (Block_init L now n d prev) = n"
  "timestamp (Block_init L now n d prev) = now"
  "data (Block_init L now n d prev) = d"
  "previous_hash (Block_init L now n d prev) = prev"
  "hash (Block_init L now n d prev) = calculate_hash L (Block_init L now n d prev)"
  by (simp_all add: Block_init_def Let_def calculate_hash_def)

lemma all_from_step:
  "(\<forall>j. i \<le> j \<and> j < n \<longrightarrow> P j) \<longleftrightarrow> (i < n \<longrightarrow> P i) \<and> (\<forall>j. Suc i \<le> j \<and> j < n \<longrightarrow> P j)"
proof (intro iffI conjI allI impI)
  fix j
  assume h: "(i < n \<longrightarrow> P i) \<and> (\<forall>j. Suc i \<le> j \<and> j < n \<longrightarrow> P j)" and j: "i \<le> j \<and> j < n"
  from j have "j = i \<or> Suc i \<le> j" by arith
  with h j show "P j" by blast
qed auto

lemma links_from_step:
  "links_from L chain i \<longleftrightarrow>
     (i < length chain \<longrightarrow>
        hash (chain ! i) = calculate_hash L (chain ! i)
        \<and> previous_hash (chain ! i) = hash (chain ! (i - 1)))
     \<and> links_from L chain (Suc i)"
  unfolding links_from_def by (rule all_from_step)

lemma verify_loop_iff: "verify_loop L chain i \<longleftrightarrow> links_from L chain i"
proof (induction L chain i rule: verify_loop.induct)
  case (1 L chain i)
  show ?case
  proof (cases "i < length chain")
    case False
    then show ?thesis
      by (subst verify_loop.simps) (auto simp: links_from_def)
  next
    case True
    show ?thesis
    proof (cases "hash (chain ! i) = calculate_hash L (chain ! i)
               \<and> previous_hash (chain ! i) = hash (chain ! (i - 1))")
      case False
      with True have "\<not> verify_loop L chain i"
        by (subst verify_loop.simps) (auto simp: Let_def)
      moreover from True False have "\<not> links_from L chain i"
        by (subst links_from_step) auto
      ultimately show ?thesis by simp
    next
      case ok: True
      with True have "verify_loop L chain i = verify_loop L chain (i + 1)"
        by (subst verify_loop.simps) (simp add: Let_def)
      also have "\<dots> = links_from L chain (i + 1)"
        using "1.IH" [OF True refl refl] ok by simp
      also have "\<dots> = links_from L chain i"
        using ok True by (subst (2) links_from_step) auto
      finally show ?thesis .
    qed
  qed
qed

lemma add_block_nonempty:
  "chain \<noteq> [] \<Longrightarrow>
   add_block L now chain d =
     (to_record L (Block_init L now (length chain) d (hash (last chain))),
      chain @ [Block_init L now (length chain) d (hash (last chain))])"
  by (simp add: add_block_def get_latest_block_def Let_def)

lemma links_from_add_block:
  assumes "chain \<noteq> []" and "links_from L chain 1"
  shows "links_from L (snd (add_block L now chain d)) 1"
  unfolding links_from_def
proof (intro allI impI)
  fix j
  let ?b = "Block_init L now (length chain) d (hash (last chain))"
  assume j: "1 \<le> j \<and> j < length (snd (add_block L now chain d))"
  have eq: "snd (add_block L now chain d) = chain @ [?b]"
    using assms(1) by (simp add: add_block_nonempty)
  show "hash (snd (add_block L now chain d) ! j) = calculate_hash L (snd (add_block L now chain d) ! j)
        \<and> previous_hash (snd (add_block L now chain d) ! j) = hash (snd (add_block L now chain d) ! (j - 1))"
  proof (cases "j < length chain")
    case True
    then have "j - 1 < length chain" by arith
    with True j assms(2) show ?thesis
      by (simp add: eq nth_append links_from_def)
  next
    case False
    with j have jl: "j = length chain" by (simp add: eq)
    from assms(1) have "length chain - 1 < length chain" by (cases chain) simp_all
    with assms(1) show ?thesis
      by (simp add: eq jl nth_append Block_init_fields last_conv_nth)
  qed
qed

lemma add_blocks_nonempty: "chain \<noteq> [] \<Longrightarrow> add_blocks L chain ops \<noteq> []"
proof (induction ops arbitrary: chain)
  case Nil
  then show ?case by simp
next
  case (Cons op ops)
  obtain now d where op: "op = (now, d)" by (cases op)
  have "snd (add_block L now chain d) \<noteq> []"
    using Cons.prems by (simp add: add_block_nonempty)
  then show ?case
    using Cons.IH by (simp add: op)
qed

lemma links_from_add_blocks:
  "chain \<noteq> [] \<Longrightarrow> links_from L chain 1 \<Longrightarrow> links_from L (add_blocks L chain ops) 1"
proof (induction ops arbitrary: chain)
  case Nil
  then show ?case by simp
next
  case (Cons op ops)
  obtain now d where op: "op = (now, d)" by (cases op)
  have "snd (add_block L now chain d) \<noteq> []"
    using Cons.prems(1) by (simp add: add_block_nonempty)
  moreover have "links_from L (snd (add_block L now chain d)) 1"
    using Cons.prems by (rule links_from_add_block)
  ultimately show ?case
    using Cons.IH by (simp add: op)
qed

lemma init_links: "links_from L (CultivationBlockchain_init L now) 1"
  by (simp add: links_from_def CultivationBlockchain_init_def create_genesis_block_def)

lemma init_nonempty: "CultivationBlockchain_init L now \<noteq> []"
  by (simp add: CultivationBlockchain_init_def create_genesis_block_def)

lemma verify_chain_add_blocks:
  "verify_chain L (add_blocks L (CultivationBlockchain_init L now0) ops)"
  unfolding verify_chain_def verify_loop_iff
  by (rule links_from_add_blocks [OF init_nonempty init_links])

text \<open>
  Any block after the genesis block whose stored hash is not the hash of its fields
  makes \<open>verify_chain\<close> return false, however the chain came to be in that state.
\<close>

lemma mismatch_detected:
  assumes "1 \<le> i" and "i < length chain"
    and "calculate_hash L (chain ! i) \<noteq> hash (chain ! i)"
  shows "\<not> verify_chain L chain"
proof
  assume "verify_chain L chain"
  then have "links_from L chain 1"
    by (simp only: verify_chain_def verify_loop_iff)
  with assms(1,2) have "hash (chain ! i) = calculate_hash L (chain ! i)"
    unfolding links_from_def by blast
  then have "calculate_hash L (chain ! i) = hash (chain ! i)"
    by (rule sym)
  with assms(3) show False by (rule notE)
qed

lemma tamper_detected:
  assumes "1 \<le> i" and "i < length chain"
    and "calculate_hash L ((chain ! i)\<lparr>data := d\<rparr>) \<noteq> hash (chain ! i)"
  shows "\<not> verify_chain L (chain[i := (chain ! i)\<lparr>data := d\<rparr>])"
proof (rule mismatch_detected [OF assms(1)])
  show "i < length (chain[i := (chain ! i)\<lparr>data := d\<rparr>])"
    using assms(2) by simp
  have "(chain[i := (chain ! i)\<lparr>data := d\<rparr>]) ! i = (chain ! i)\<lparr>data := d\<rparr>"
    using assms(2) by simp
  moreover have "hash ((chain ! i)\<lparr>data := d\<rparr>) = hash (chain ! i)"
    by simp
  ultimately show "calculate_hash L ((chain[i := (chain ! i)\<lparr>data := d\<rparr>]) ! i)
                   \<noteq> hash ((chain[i := (chain ! i)\<lparr>data := d\<rparr>]) ! i)"
    using assms(3) by (simp only: not_False_eq_True)
qed

text \<open>The loop starts at index 1 and reads of block 0 only its stored hash.\<close>

lemma genesis_tamper_unseen:
  "verify_chain L (chain[0 := (chain ! 0)\<lparr>data := d\<rparr>]) = verify_chain L chain"
proof -
  let ?c = "chain[0 := (chain ! 0)\<lparr>data := d\<rparr>]"
  have same: "?c ! j = chain ! j" if "1 \<le> j" for j
    using that by simp
  have hsame: "hash (?c ! j) = hash (chain ! j)" for j
    by (cases chain; cases j) simp_all
  have "links_from L ?c 1 = links_from L chain 1"
    unfolding links_from_def
  proof (intro iff_allI)
    fix j
    show "(1 \<le> j \<and> j < length ?c \<longrightarrow>
            hash (?c ! j) = calculate_hash L (?c ! j) \<and> previous_hash (?c ! j) = hash (?c ! (j - 1)))
          = (1 \<le> j \<and> j < length chain \<longrightarrow>
            hash (chain ! j) = calculate_hash L (chain ! j) \<and> previous_hash (chain ! j) = hash (chain ! (j - 1)))"
    proof (cases "1 \<le> j")
      case True
      show ?thesis
        unfolding hsame same [OF True] by simp
    next
      case False
      then show ?thesis by simp
    qed
  qed
  then show ?thesis
    by (simp only: verify_chain_def verify_loop_iff)
qed

lemma example_chain_eq:
  "example_chain =
     [\<lparr>block_number = 0, timestamp = 0, data = genesis_data, previous_hash = ''0'',
        hash = ''Ttypedata0''\<rparr>,
      \<lparr>block_number = 1, timestamp = 1, data = [(''type'', PStr ''note'')],
        previous_hash = ''Ttypedata0'', hash = ''#TtypeTtypedata0''\<rparr>]"
  by (simp add: example_chain_def CultivationBlockchain_init_def create_genesis_block_def
      add_block_def get_latest_block_def Block_init_def calculate_hash_def demo_lib_def
      demo_digest_def genesis_data_def Let_def)

text \<open>
  C1, amended. For every chain built by any sequence of \<open>add_block\<close> calls from a fresh
  chain, \<open>verify_chain\<close> returns true; and if after such a sequence the payload of a
  stored block other than the genesis block (index at least 1) is changed so that its
  recomputed hash differs from its stored hash, \<open>verify_chain\<close> returns false.
\<close>

theorem C1_chain_hash_linkage:
  "verify_chain L (add_blocks L (CultivationBlockchain_init L now0) ops)
   \<and> (\<forall>i d. 1 \<le> i \<and> i < length (add_blocks L (CultivationBlockchain_init L now0) ops)
        \<and> calculate_hash L ((add_blocks L (CultivationBlockchain_init L now0) ops ! i)\<lparr>data := d\<rparr>)
            \<noteq> hash (add_blocks L (CultivationBlockchain_init L now0) ops ! i)
        \<longrightarrow> \<not> verify_chain L ((add_blocks L (CultivationBlockchain_init L now0) ops)
               [i := (add_blocks L (CultivationBlockchain_init L now0) ops ! i)\<lparr>data := d\<rparr>]))"
proof (intro conjI allI impI)
  show "verify_chain L (add_blocks L (CultivationBlockchain_init L now0) ops)"
    by (rule verify_chain_add_blocks)
next
  fix i d
  assume "1 \<le> i \<and> i < length (add_blocks L (CultivationBlockchain_init L now0) ops)
        \<and> calculate_hash L ((add_blocks L (CultivationBlockchain_init L now0) ops ! i)\<lparr>data := d\<rparr>)
            \<noteq> hash (add_blocks L (CultivationBlockchain_init L now0) ops ! i)"
  then show "\<not> verify_chain L ((add_blocks L (CultivationBlockchain_init L now0) ops)
               [i := (add_blocks L (CultivationBlockchain_init L now0) ops ! i)\<lparr>data := d\<rparr>])"
    by (intro tamper_detected) simp_all
qed

text \<open>
  The amended C1 on the example chain (genesis and one appended block): the chain
  verifies, and forging the payload of block 1 is detected.
\<close>

theorem C1_chain_hash_linkage_witness:
  "verify_chain demo_lib example_chain
   \<and> calculate_hash demo_lib ((example_chain ! 1)\<lparr>data := forged_data\<rparr>) \<noteq> hash (example_chain ! 1)
   \<and> \<not> verify_chain demo_lib (example_chain[1 := (example_chain ! 1)\<lparr>data := forged_data\<rparr>])"
proof -
  have diff: "calculate_hash demo_lib ((example_chain ! 1)\<lparr>data := forged_data\<rparr>) \<noteq> hash (example_chain ! 1)"
    by (simp add: example_chain_eq calculate_hash_def demo_lib_def demo_digest_def forged_data_def)
  moreover have "(1::nat) \<le> 1 \<and> 1 < length example_chain"
    by (simp add: example_chain_eq)
  ultimately show ?thesis
    using C1_chain_hash_linkage [of demo_lib 0 "[(1, [(''type'', PStr ''note'')])]"]
    unfolding example_chain_def [symmetric] by blast
qed

text \<open>
  C1 as stated fails at the genesis block: its payload is forged, its recomputed hash
  differs from its stored hash, and \<open>verify_chain\<close> still returns true.
\<close>

theorem C1_genesis_tamper_counterexample:
  "calculate_hash demo_lib ((example_chain ! 0)\<lparr>data := forged_data\<rparr>) \<noteq> hash (example_chain ! 0)
   \<and> verify_chain demo_lib (example_chain[0 := (example_chain ! 0)\<lparr>data := forged_data\<rparr>])"
proof
  show "calculate_hash demo_lib ((example_chain ! 0)\<lparr>data := forged_data\<rparr>) \<noteq> hash (example_chain ! 0)"
    by (simp add: example_chain_eq calculate_hash_def demo_lib_def demo_digest_def forged_data_def)
  have "verify_chain demo_lib example_chain"
    unfolding example_chain_def by (rule verify_chain_add_blocks)
  then show "verify_chain demo_lib (example_chain[0 := (example_chain ! 0)\<lparr>data := forged_data\<rparr>])"
    by (simp only: genesis_tamper_unseen)
qed




text \<open>
  C3. A freshly constructed chain has length exactly 1; its single block has
  \<open>previous_hash\<close> equal to the genesis marker \<open>"0"\<close> and block number 0; and
  \<open>verify_chain\<close> on it returns true.
\<close>

theorem C3_genesis_invariant:
  "length (CultivationBlockchain_init L now) = 1
   \<and> previous_hash (CultivationBlockchain_init L now ! 0) = ''0''
   \<and> block_number (CultivationBlockchain_init L now ! 0) = 0
   \<and> verify_chain L (CultivationBlockchain_init L now) = True"
proof -
  have "verify_loop L (CultivationBlockchain_init L now) 1"
    by (subst verify_loop.simps)
      (simp add: CultivationBlockchain_init_def create_genesis_block_def)
  then show ?thesis
    by (simp add: CultivationBlockchain_init_def create_genesis_block_def Block_init_def
        verify_chain_def Let_def)
qed

section \<open>Properties of the growth tracker\<close>

lemma track_growth_InrD:
  assumes "track_growth now_rate now_predict now_metric gh plant h lc = Inr (m, gh')"
  shows "growth_rate m =
           (if history_get gh (id_p plant) \<noteq> []
               \<and> days_between now_rate (timestamp_m (last (history_get gh (id_p plant)))) > 0
            then Some ((h - height (last (history_get gh (id_p plant))))
                        / days_between now_rate (timestamp_m (last (history_get gh (id_p plant)))))
            else None)"
    and "health_score_m m =
           (case growth_rate m of
              None \<Rightarrow> health_score plant
            | Some r \<Rightarrow>
                if r < expected_rate_of (growth_stage plant) * 0.5 then max 50 (health_score plant - 10)
                else if r > expected_rate_of (growth_stage plant) * 1.5 then min 100 (health_score plant + 5)
                else health_score plant)"
    and "gh' = gh(id_p plant \<mapsto> history_get gh (id_p plant) @ [m])"
  using assms
  by (auto simp: track_growth_def Let_def split: sum.splits)

lemma track_growth_succeeds:
  assumes "predict_harvest_date now_predict plant (history_get gh (id_p plant)) = Inr d"
  shows "\<exists>m gh'. track_growth now_rate now_predict now_metric gh plant h lc = Inr (m, gh')"
  using assms by (simp add: track_growth_def Let_def)

lemma sum_stage_durations_bounds:
  "0 \<le> sum_stage_durations (drop (GrowthStage_index stage) GrowthStage_list) 0
   \<and> sum_stage_durations (drop (GrowthStage_index stage) GrowthStage_list) 0 \<le> 114"
  by (cases stage) (simp_all add: GrowthStage_list_def stage_durations_def)

text \<open>
  With fewer than four prior samples nothing is scaled, and the prediction (hence
  \<open>track_growth\<close>) returns whenever the clock is at least 114 days before the end of the
  \<open>datetime\<close> range.
\<close>

lemma predict_harvest_date_unscaled:
  assumes "length history \<le> 3" and "0 \<le> now" and "now + 114 * 86400000000 \<le> datetime_max"
  shows "\<exists>d. predict_harvest_date now plant history = Inr d"
proof -
  let ?r = "sum_stage_durations (drop (GrowthStage_index (growth_stage plant)) GrowthStage_list) 0"
  have days: "predicted_remaining_days plant history = ?r"
    using assms(1) by (simp add: predicted_remaining_days_def Let_def)
  have bounds: "0 \<le> ?r" "?r \<le> 114"
    using sum_stage_durations_bounds [of "growth_stage plant"] by simp_all
  then have td: "timedelta_days ?r = Inr (?r * 86400000000)"
    by (simp add: timedelta_days_def timedelta_def)
  from bounds assms(2,3) have "0 \<le> now + ?r * 86400000000" "now + ?r * 86400000000 \<le> datetime_max"
    by simp_all
  then show ?thesis
    by (simp add: predict_harvest_date_def days td datetime_add_def)
qed










lemma predict_weak_plant_one:
  "predict_harvest_date (t0 + day) weak_plant [sample t0 10 None] = Inr (t0 + 91 * day)"
  by (simp add: predict_harvest_date_def predicted_remaining_days_def weak_plant_def seed_plant_def
      GrowthStage_list_def stage_durations_def timedelta_days_def timedelta_def
      datetime_add_def datetime_max_def t0_def day_def Let_def)

text \<open>
  C10. When the plant's health score is below 50 and the growth rate is defined and
  strictly below half the stage's expected rate, the sample that \<open>track_growth\<close> returns
  and stores has the health score exactly 50: the penalty raises the score.
\<close>

theorem C10_penalty_raises_low_score:
  assumes "track_growth now_rate now_predict now_metric gh plant h lc = Inr (m, gh')"
    and "health_score plant < 50"
    and "growth_rate m = Some r"
    and "r < expected_rate_of (growth_stage plant) * 0.5"
  shows "health_score_m m = 50
         \<and> health_score plant < health_score_m m
         \<and> gh' (id_p plant) = Some (history_get gh (id_p plant) @ [m])"
  using track_growth_InrD(2,3) [OF assms(1)] assms(2-4)
  by simp

theorem C10_penalty_raises_low_score_witness:
  "health_score weak_plant = 40
   \<and> (\<exists>m gh'. track_growth (t0 + day) (t0 + day) (t0 + day) [''p1'' \<mapsto> [sample t0 10 None]]
                 weak_plant 10 None = Inr (m, gh')
              \<and> growth_rate m = Some 0
              \<and> health_score_m m = 50
              \<and> gh' ''p1'' = Some [sample t0 10 None, m])"
proof -
  have hist: "history_get [''p1'' \<mapsto> [sample t0 10 None]] (id_p weak_plant) = [sample t0 10 None]"
    by (simp add: history_get_def weak_plant_def seed_plant_def)
  have idp: "id_p weak_plant = ''p1''" and score: "health_score weak_plant = 40"
    and stage: "expected_rate_of (growth_stage weak_plant) = 2"
    by (simp_all add: weak_plant_def seed_plant_def expected_rate_of_def stage_growth_rates_def)
  obtain m g where run:
    "track_growth (t0 + day) (t0 + day) (t0 + day) [''p1'' \<mapsto> [sample t0 10 None]]
       weak_plant 10 None = Inr (m, g)"
    using track_growth_succeeds [of "t0 + day" weak_plant "[''p1'' \<mapsto> [sample t0 10 None]]"]
      predict_weak_plant_one hist by metis
  have rate: "growth_rate m = Some 0"
    using track_growth_InrD(1) [OF run] unfolding hist
    by (simp add: days_between_def sample_def day_def)
  have "health_score_m m = 50 \<and> g (id_p weak_plant) = Some ([sample t0 10 None] @ [m])"
    using C10_penalty_raises_low_score [OF run _ rate] unfolding hist
    by (simp add: score stage)
  with run rate score idp show ?thesis
    by auto
qed




lemma truthy_rates_eq_defined_rates:
  "\<forall>m\<in>set ms. growth_rate m \<noteq> Some 0 \<Longrightarrow> truthy_rates ms = defined_rates ms"
  by (induction ms) (auto simp: truthy_rates_def defined_rates_def split: option.splits)

text \<open>Where no recent rate is exactly zero, the code computes what the claim describes.\<close>

lemma predicted_eq_claimed:
  assumes "\<forall>m\<in>set (last_n 5 history). growth_rate m \<noteq> Some 0"
  shows "predicted_remaining_days plant history = claimed_remaining_days plant history"
proof -
  have "(history \<noteq> [] \<and> length history > 3) = (length history \<ge> 4)"
    by auto
  then show ?thesis
    unfolding predicted_remaining_days_def claimed_remaining_days_def
      truthy_rates_eq_defined_rates [OF assms] Let_def
    by (simp split: option.splits)
qed

lemma sum_stage_durations_vegetative:
  "sum_stage_durations (drop (GrowthStage_index VEGETATIVE) GrowthStage_list) 0 = 90"
  by (simp add: GrowthStage_list_def stage_durations_def)

text \<open>
  C6 on the code. The plant is in the vegetative stage (90 days remain, expected
  rate 2) and the four prior samples have the rates undefined, 0, 4 and 4. The code
  drops the zero rate with the undefined one: its mean is 4 and it predicts 45 days.
  Ignoring exactly the undefined rate gives the mean 8/3 and 67 days.
\<close>

theorem C6_zero_rate_dropped_from_mean:
  "np_mean (truthy_rates (last_n 5 four_samples)) = Some 4
   \<and> np_mean (defined_rates (last_n 5 four_samples)) = Some (8 / 3)
   \<and> predicted_remaining_days weak_plant four_samples = 45
   \<and> claimed_remaining_days weak_plant four_samples = 67
   \<and> predict_harvest_date (t0 + 4 * day) weak_plant four_samples = Inr (t0 + 49 * day)"
proof -
  have stage: "growth_stage weak_plant = VEGETATIVE"
    by (simp add: weak_plant_def)
  have rate: "expected_rate_of VEGETATIVE = 2"
    by (simp add: expected_rate_of_def stage_growth_rates_def)
  have last5: "last_n 5 four_samples = four_samples"
    by (simp add: last_n_def four_samples_def)
  have truthy: "truthy_rates four_samples = [4, 4]"
    by (simp add: truthy_rates_def four_samples_def sample_def)
  have defined: "defined_rates four_samples = [0, 4, 4]"
    by (simp add: defined_rates_def four_samples_def sample_def)
  have len: "length four_samples = 4"
    by (simp add: four_samples_def)
  have m1: "np_mean (truthy_rates (last_n 5 four_samples)) = Some 4"
    by (simp add: last5 truthy np_mean_def)
  have m2: "np_mean (defined_rates (last_n 5 four_samples)) = Some (8 / 3)"
    by (simp add: last5 defined np_mean_def)
  have ne: "four_samples \<noteq> []"
    by (simp add: four_samples_def)
  have p1: "predicted_remaining_days weak_plant four_samples = 45"
    unfolding predicted_remaining_days_def stage sum_stage_durations_vegetative Let_def m1 rate
    by (simp add: ne len py_int_def)
  have p2: "claimed_remaining_days weak_plant four_samples = 67"
    unfolding claimed_remaining_days_def stage sum_stage_durations_vegetative Let_def m2 rate
    by (simp add: len py_int_def)
  have p3: "predict_harvest_date (t0 + 4 * day) weak_plant four_samples = Inr (t0 + 49 * day)"
    unfolding predict_harvest_date_def p1
    by (simp add: timedelta_days_def timedelta_def datetime_add_def datetime_max_def t0_def day_def)
  from m1 m2 p1 p2 p3 show ?thesis by simp
qed

section \<open>Properties of the environmental monitor\<close>






lemma np_min_nonempty: "xs \<noteq> [] \<Longrightarrow> np_min xs = Inr (Min (set xs))"
proof (cases xs)
  case (Cons x rest)
  then show ?thesis
    using Min.set_eq_fold [of x rest] by (simp add: np_min_def)
qed simp

lemma np_max_nonempty: "xs \<noteq> [] \<Longrightarrow> np_max xs = Inr (Max (set xs))"
proof (cases xs)
  case (Cons x rest)
  then show ?thesis
    using Max.set_eq_fold [of x rest] by (simp add: np_max_def)
qed simp

lemma np_mean_nonempty: "xs \<noteq> [] \<Longrightarrow> np_mean xs = Some (mean_of xs)"
  by (simp add: np_mean_def mean_of_def)

lemma np_std_nonempty:
  "xs \<noteq> [] \<Longrightarrow> np_std xs = Some (sqrt (mean_of (map (\<lambda>x. (x - mean_of xs)\<^sup>2) xs)))"
  by (simp add: np_std_def np_mean_nonempty mean_of_def)

lemma spread_of_nonempty: "xs \<noteq> [] \<Longrightarrow> spread_of xs = Inr (spread_over xs)"
  by (simp add: spread_of_def spread_over_def np_min_nonempty np_max_nonempty
      np_mean_nonempty np_std_nonempty)

lemma level_of_nonempty: "xs \<noteq> [] \<Longrightarrow> level_of xs = Inr (level_over xs)"
  by (simp add: level_of_def level_over_def np_min_nonempty np_max_nonempty np_mean_nonempty)

lemma timedelta_small:
  assumes "- datetime_max \<le> us" and "us \<le> datetime_max"
  shows "timedelta us = Inr us"
proof -
  have "us div 86400000000 \<le> datetime_max div 86400000000"
    using assms(2) by (rule zdiv_mono1) simp
  moreover have "(- datetime_max) div 86400000000 \<le> us div 86400000000"
    using assms(1) by (rule zdiv_mono1) simp
  ultimately show ?thesis
    by (simp add: timedelta_def datetime_max_def)
qed

lemma cutoff_time_ok:
  assumes "valid_datetime now" and "valid_datetime (now - hours * 3600000000)"
  shows "timedelta_hours hours = Inr (hours * 3600000000)"
    and "datetime_sub now (hours * 3600000000) = Inr (now - hours * 3600000000)"
proof -
  from assms have "- datetime_max \<le> hours * 3600000000" "hours * 3600000000 \<le> datetime_max"
    by (simp_all add: valid_datetime_def)
  then show "timedelta_hours hours = Inr (hours * 3600000000)"
    unfolding timedelta_hours_def by (rule timedelta_small)
  from assms(2) show "datetime_sub now (hours * 3600000000) = Inr (now - hours * 3600000000)"
    by (simp add: datetime_sub_def datetime_add_def valid_datetime_def)
qed

lemma last_n_nonempty: "0 < n \<Longrightarrow> xs \<noteq> [] \<Longrightarrow> last_n n xs \<noteq> []"
  by (cases xs) (simp_all add: last_n_def)

lemma fallback_is_last_n:
  "(if length h > 10 then last_n 10 h else h) = last_n 10 h"
  by (simp add: last_n_def)

lemma analytics_with_cutoff:
  assumes "history_get ch pod \<noteq> []"
    and "timedelta_hours hours = Inr td" and "datetime_sub now td = Inr cutoff_time"
    and "recent = (if filter (\<lambda>c. timestamp_c c \<ge> cutoff_time) (history_get ch pod) = []
                   then last_n 10 (history_get ch pod)
                   else filter (\<lambda>c. timestamp_c c \<ge> cutoff_time) (history_get ch pod))"
  shows "get_environment_analytics now ch pod hours =
           Inr (EnvAnalytics
             \<lparr>period_hours = hours,
              measurements = length recent,
              temperature_stats = spread_over (map temperature recent),
              humidity_stats = spread_over (map humidity recent),
              co2_stats = level_over (map co2_level recent),
              overall_status = get_overall_status (Some (last recent))\<rparr>)"
proof -
  have ne: "recent \<noteq> []"
    unfolding assms(4) using assms(1) by (simp add: last_n_nonempty)
  have stats: "spread_of (map temperature recent) = Inr (spread_over (map temperature recent))"
    "spread_of (map humidity recent) = Inr (spread_over (map humidity recent))"
    "level_of (map co2_level recent) = Inr (level_over (map co2_level recent))"
    using ne by (simp_all add: spread_of_nonempty level_of_nonempty)
  have "get_environment_analytics now ch pod hours =
          (case spread_of (map temperature recent) of
             Inl e \<Rightarrow> Inl e
           | Inr t_stats \<Rightarrow>
          (case spread_of (map humidity recent) of
             Inl e \<Rightarrow> Inl e
           | Inr h_stats \<Rightarrow>
          (case level_of (map co2_level recent) of
             Inl e \<Rightarrow> Inl e
           | Inr c_stats \<Rightarrow>
               Inr (EnvAnalytics
                 \<lparr>period_hours = hours,
                  measurements = length recent,
                  temperature_stats = t_stats,
                  humidity_stats = h_stats,
                  co2_stats = c_stats,
                  overall_status =
                    get_overall_status (if recent \<noteq> [] then Some (last recent) else None)\<rparr>))))"
    unfolding get_environment_analytics_def Let_def assms(4) fallback_is_last_n
    using assms(1) by (simp only: assms(2,3) if_False sum.case)
  then show ?thesis
    unfolding stats using ne by (simp only: sum.case if_True not_False_eq_True)
qed

lemma no_data_iff:
  "get_environment_analytics now ch pod hours = Inr (EnvError ''No environmental data available'')
   \<longleftrightarrow> history_get ch pod = []"
proof (cases "history_get ch pod = []")
  case True
  then show ?thesis
    by (simp add: get_environment_analytics_def)
next
  case False
  have "get_environment_analytics now ch pod hours \<noteq> Inr (EnvError ''No environmental data available'')"
  proof (cases "timedelta_hours hours")
    case (Inl e)
    with False show ?thesis
      by (simp add: get_environment_analytics_def)
  next
    case td: (Inr td)
    show ?thesis
    proof (cases "datetime_sub now td")
      case (Inl e)
      with False td show ?thesis
        by (simp add: get_environment_analytics_def)
    next
      case (Inr cutoff_time)
      show ?thesis
        unfolding analytics_with_cutoff [OF False td Inr refl] by simp
    qed
  qed
  with False show ?thesis by simp
qed

lemma fallback_analytics:
  assumes "history_get ch pod \<noteq> []"
    and "valid_datetime now" and "valid_datetime (now - hours * 3600000000)"
    and "filter (\<lambda>c. timestamp_c c \<ge> now - hours * 3600000000) (history_get ch pod) = []"
  shows "get_environment_analytics now ch pod hours =
           Inr (EnvAnalytics
             \<lparr>period_hours = hours,
              measurements = length (last_n 10 (history_get ch pod)),
              temperature_stats = spread_over (map temperature (last_n 10 (history_get ch pod))),
              humidity_stats = spread_over (map humidity (last_n 10 (history_get ch pod))),
              co2_stats = level_over (map co2_level (last_n 10 (history_get ch pod))),
              overall_status = get_overall_status (Some (last (last_n 10 (history_get ch pod))))\<rparr>)"
  by (rule analytics_with_cutoff [OF assms(1) cutoff_time_ok [OF assms(2,3)]])
    (simp add: assms(4))


lemma last_n_suffix: "\<exists>older. xs = older @ last_n n xs"
  unfolding last_n_def by (rule exI [of _ "take (length xs - n) xs"]) simp

text \<open>
  C7, amended. \<open>get_environment_analytics\<close> returns the "no data" error exactly when the
  pod has no recorded sample. When samples exist, the start of the window (the clock
  reading minus \<open>hours\<close> hours) is a date the \<open>datetime\<close> type can hold, and no sample falls
  inside the window, it returns, without raising, the statistics of the most recent
  10 samples (of all samples if there are fewer): mean, least, greatest and population
  standard deviation for temperature and humidity, and mean, least and greatest for
  CO2.
\<close>

theorem C7_windowed_stats:
  "(get_environment_analytics now ch pod hours = Inr (EnvError ''No environmental data available'')
      \<longleftrightarrow> history_get ch pod = [])
   \<and> (history_get ch pod \<noteq> []
        \<and> valid_datetime now \<and> valid_datetime (now - hours * 3600000000)
        \<and> filter (\<lambda>c. timestamp_c c \<ge> now - hours * 3600000000) (history_get ch pod) = []
      \<longrightarrow> get_environment_analytics now ch pod hours =
            Inr (EnvAnalytics
              \<lparr>period_hours = hours,
               measurements = length (last_n 10 (history_get ch pod)),
               temperature_stats = spread_over (map temperature (last_n 10 (history_get ch pod))),
               humidity_stats = spread_over (map humidity (last_n 10 (history_get ch pod))),
               co2_stats = level_over (map co2_level (last_n 10 (history_get ch pod))),
               overall_status =
                 get_overall_status (Some (last (last_n 10 (history_get ch pod))))\<rparr>)
          \<and> length (last_n 10 (history_get ch pod)) = min 10 (length (history_get ch pod))
          \<and> (\<exists>older. history_get ch pod = older @ last_n 10 (history_get ch pod))
          \<and> (length (history_get ch pod) \<le> 10
                \<longrightarrow> last_n 10 (history_get ch pod) = history_get ch pod))"
proof (intro conjI impI)
  show "get_environment_analytics now ch pod hours = Inr (EnvError ''No environmental data available'')
      \<longleftrightarrow> history_get ch pod = []"
    by (rule no_data_iff)
next
  assume "history_get ch pod \<noteq> []
        \<and> valid_datetime now \<and> valid_datetime (now - hours * 3600000000)
        \<and> filter (\<lambda>c. timestamp_c c \<ge> now - hours * 3600000000) (history_get ch pod) = []"
  then show "get_environment_analytics now ch pod hours =
            Inr (EnvAnalytics
              \<lparr>period_hours = hours,
               measurements = length (last_n 10 (history_get ch pod)),
               temperature_stats = spread_over (map temperature (last_n 10 (history_get ch pod))),
               humidity_stats = spread_over (map humidity (last_n 10 (history_get ch pod))),
               co2_stats = level_over (map co2_level (last_n 10 (history_get ch pod))),
               overall_status =
                 get_overall_status (Some (last (last_n 10 (history_get ch pod))))\<rparr>)"
    by (intro fallback_analytics) simp_all
next
  show "length (last_n 10 (history_get ch pod)) = min 10 (length (history_get ch pod))"
    by (simp add: last_n_def)
next
  show "\<exists>older. history_get ch pod = older @ last_n 10 (history_get ch pod)"
    by (rule last_n_suffix)
next
  assume "length (history_get ch pod) \<le> 10"
  then show "last_n 10 (history_get ch pod) = history_get ch pod"
    by (simp add: last_n_def)
qed

lemma one_sample_history_get: "history_get one_sample_history ''pod1'' = [odd_sample]"
  by (simp add: history_get_def one_sample_history_def)

text \<open>
  The amended C7 on examples: an unknown pod gets the "no data" error; a pod whose
  only sample is a day old, asked for the last hour, gets the statistics of that one
  sample.
\<close>

theorem C7_windowed_stats_witness:
  "get_environment_analytics t0 Map.empty ''pod1'' 24
     = Inr (EnvError ''No environmental data available'')
   \<and> get_environment_analytics t0 one_sample_history ''pod1'' 1 =
       Inr (EnvAnalytics
         \<lparr>period_hours = 1,
          measurements = 1,
          temperature_stats = \<lparr>average = Some 24, minimum = 24, maximum = 24, std_dev = Some 0\<rparr>,
          humidity_stats = \<lparr>average = Some 50, minimum = 50, maximum = 50, std_dev = Some 0\<rparr>,
          co2_stats = \<lparr>average_l = Some 100000, minimum_l = 100000, maximum_l = 100000\<rparr>,
          overall_status = ''critical''\<rparr>)"
proof -
  have "history_get Map.empty ''pod1'' = ([] :: EnvironmentalCondition list)"
    by (simp add: history_get_def)
  with C7_windowed_stats [of t0 Map.empty "''pod1''" 24]
  have first: "get_environment_analytics t0 Map.empty ''pod1'' 24
     = Inr (EnvError ''No environmental data available'')"
    by blast
  have "valid_datetime t0" "valid_datetime (t0 - 1 * 3600000000)"
    by (simp_all add: valid_datetime_def datetime_max_def t0_def)
  moreover have "filter (\<lambda>c. timestamp_c c \<ge> t0 - 1 * 3600000000) [odd_sample] = []"
    by (simp add: odd_sample_def day_def t0_def)
  ultimately have "get_environment_analytics t0 one_sample_history ''pod1'' 1 =
            Inr (EnvAnalytics
              \<lparr>period_hours = 1,
               measurements = length (last_n 10 [odd_sample]),
               temperature_stats = spread_over (map temperature (last_n 10 [odd_sample])),
               humidity_stats = spread_over (map humidity (last_n 10 [odd_sample])),
               co2_stats = level_over (map co2_level (last_n 10 [odd_sample])),
               overall_status = get_overall_status (Some (last (last_n 10 [odd_sample])))\<rparr>)"
    using C7_windowed_stats [of t0 one_sample_history "''pod1''" 1]
    unfolding one_sample_history_get by blast
  moreover have "last_n 10 [odd_sample] = [odd_sample]"
    by (simp add: last_n_def)
  moreover have "get_overall_status (Some odd_sample) = ''critical''"
    by (simp add: get_overall_status_def analyze_conditions_def measured_items_def
        optimal_ranges_def odd_sample_def Let_def)
  moreover have "spread_over [temperature odd_sample]
                 = \<lparr>average = Some 24, minimum = 24, maximum = 24, std_dev = Some 0\<rparr>"
    "spread_over [humidity odd_sample]
                 = \<lparr>average = Some 50, minimum = 50, maximum = 50, std_dev = Some 0\<rparr>"
    "level_over [co2_level odd_sample]
                 = \<lparr>average_l = Some 100000, minimum_l = 100000, maximum_l = 100000\<rparr>"
    by (simp_all add: spread_over_def level_over_def mean_of_def odd_sample_def)
  ultimately show ?thesis
    using first by simp
qed

text \<open>
  C7 as stated fails for a window that starts beyond the year 9999: the pod has a
  sample, the sample is older than the start of the window, and the call raises
  \<open>OverflowError\<close> where the claim has it return the statistics of the fallback set.
\<close>

theorem C7_far_window_counterexample:
  "history_get one_sample_history ''pod1'' = [odd_sample]
   \<and> timestamp_c odd_sample < t0 - (- 100000000) * 3600000000
   \<and> get_environment_analytics t0 one_sample_history ''pod1'' (- 100000000) = Inl OverflowError"
  by (simp add: one_sample_history_get get_environment_analytics_def timedelta_hours_def
      timedelta_def datetime_sub_def datetime_add_def datetime_max_def odd_sample_def
      t0_def day_def)

section \<open>Properties of the coordinator\<close>










end
